theory Spec2Isabelle
  imports Complex_Main "HOL-Library.Word"
begin

section \<open>Exceptions and results\<close>

text \<open>
  Every exception the service can see is a subclass of Python's \<open>Exception\<close>: FastAPI's
  \<open>HTTPException\<close> (a status code and a detail), and whatever the libraries raise
  (\<open>PyError\<close> with the name of the exception class). A call that may raise returns
  \<open>exn + 'a\<close>, with \<open>Inl\<close> for the raised exception.
\<close>

datatype exn =
    HTTPException (status_code: nat) (detail: string)
  | PyError string

type_synonym byte = "8 word"
type_synonym bytes = "byte list"

section \<open>Adaptive size of the QR code (\<open>add_qr_to_pdf\<close>, lines 122-126)\<close>

text \<open>
  Python floats are modelled as real numbers: rounding is left out, and the exponent
  \<open>0.3\<close> and the factors \<open>0.1\<close>, \<open>0.2\<close> are the exact fractions.

  \<open>x ** 0.3\<close> on a float: for a negative base and a fractional exponent Python 3 returns
  a complex number (\<open>None\<close> here), \<open>0.0 ** 0.3\<close> is \<open>0.0\<close>, and a positive base
  gives the real power.
\<close>

definition pow_0_3 :: "real \<Rightarrow> real option" where
  "pow_0_3 x = (if x < 0 then None else Some (x powr 0.3))"

text \<open>
  Lines 123-126. \<open>min(target_size, max_qr_size)\<close> compares its arguments; with a complex
  \<open>target_size\<close> the comparison raises \<open>TypeError\<close>.
\<close>

definition qr_size :: "real \<Rightarrow> real \<Rightarrow> exn + real" where
  "qr_size page_width page_height =
     (let min_qr_size = 100;
          max_qr_size = min page_width page_height * 0.2
      in case pow_0_3 (page_width * page_height) of
           None \<Rightarrow> Inl (PyError ''TypeError'')
         | Some p \<Rightarrow>
             (let target_size = p * 0.1
              in Inr (max min_qr_size (min target_size max_qr_size))))"

subsection \<open>The sizing rule in the words of the specification\<close>

definition spec_min_size :: real where
  "spec_min_size = 100"

definition spec_max_size :: "real \<Rightarrow> real \<Rightarrow> real" where
  "spec_max_size W H = 0.2 * min W H"

definition spec_target_size :: "real \<Rightarrow> real \<Rightarrow> real" where
  "spec_target_size W H = 0.1 * (W * H) powr 0.3"

text \<open>
  Clamping between a floor and a ceiling, where the floor wins when the ceiling lies
  below it.
\<close>

definition clamp_floor_wins :: "real \<Rightarrow> real \<Rightarrow> real \<Rightarrow> real" where
  "clamp_floor_wins t lo hi =
     (if hi < lo then lo else if t < lo then lo else if hi < t then hi else t)"

section \<open>The libraries the service calls\<close>

text \<open>
  The PDF parser, the QR encoder, the SVG and PDF renderers and the mime sniffer are
  libraries outside the repository. Their data is modelled as far as the service looks
  into it, and their functions are the fields of a record \<open>libs\<close> that every function
  of the service takes as its first argument.
\<close>

subsection \<open>PDF pages and readers (PyPDF2)\<close>

text \<open>A page: the width and height of its media box, and its content.\<close>

record 'c page =
  mediabox_width :: real
  mediabox_height :: real
  contents :: 'c

text \<open>
  A \<open>PdfReader\<close> reads its pages lazily: \<open>len(reader.pages)\<close> and \<open>reader.pages[i]\<close>
  may each raise on a damaged file.
\<close>

record 'c PdfReader =
  pages_len :: "exn + nat"
  pages_get :: "nat \<Rightarrow> exn + 'c page"

subsection \<open>QR symbols (qrcode)\<close>

datatype error_correction_level =
  ERROR_CORRECT_L | ERROR_CORRECT_M | ERROR_CORRECT_Q | ERROR_CORRECT_H

datatype image_factory = PilImage | SvgImage | SvgFragmentImage | SvgPathImage

record QRCode =
  version :: nat
  error_correction :: error_correction_level
  box_size :: nat
  border :: nat
  data_list :: "string list"

text \<open>\<open>qr.add_data(content)\<close> appends the payload to the data of the symbol.\<close>

definition add_data :: "string \<Rightarrow> QRCode \<Rightarrow> QRCode" where
  "add_data content qr = qr\<lparr>data_list := data_list qr @ [content]\<rparr>"

subsection \<open>The drawing canvas (reportlab)\<close>

text \<open>
  A canvas records the operations drawn on it, in order; \<open>'d\<close> is the type of the
  drawing that \<open>svg2rlg\<close> returns.
\<close>

datatype 'd draw_op =
    SetFillColorRGB real real real
  | Rect real real real real (fill: nat) (stroke: nat)
  | DrawDrawing 'd real real

record 'd canvas =
  pagesize :: "real \<times> real"
  ops :: "'d draw_op list"

definition Canvas :: "real \<times> real \<Rightarrow> 'd canvas" where
  "Canvas psize = \<lparr>pagesize = psize, ops = []\<rparr>"

definition setFillColorRGB :: "real \<Rightarrow> real \<Rightarrow> real \<Rightarrow> 'd canvas \<Rightarrow> 'd canvas" where
  "setFillColorRGB r g b can = can\<lparr>ops := ops can @ [SetFillColorRGB r g b]\<rparr>"

definition rect ::
  "real \<Rightarrow> real \<Rightarrow> real \<Rightarrow> real \<Rightarrow> nat \<Rightarrow> nat \<Rightarrow> 'd canvas \<Rightarrow> 'd canvas" where
  "rect x y width height fll strk can = can\<lparr>ops := ops can @ [Rect x y width height fll strk]\<rparr>"

definition renderPDF_draw :: "'d \<Rightarrow> real \<Rightarrow> real \<Rightarrow> 'd canvas \<Rightarrow> 'd canvas" where
  "renderPDF_draw drawing x y can = can\<lparr>ops := ops can @ [DrawDrawing drawing x y]\<rparr>"

subsection \<open>The library functions\<close>

text \<open>
  \<^item> \<open>magic_from_buffer b\<close>: \<open>magic.from_buffer(b, mime=True)\<close>;
  \<^item> \<open>PdfReader_new b strict\<close>: \<open>PdfReader(io.BytesIO(b), strict=strict)\<close>;
  \<^item> \<open>qr_make fit qr\<close>: \<open>qr.make(fit=fit)\<close>, which fixes the version of the symbol;
  \<^item> \<open>qr_image factory qr\<close>: \<open>qr.make_image(image_factory=factory)\<close> saved into a byte
    stream;
  \<^item> \<open>svg2rlg b\<close>: the drawing parsed from SVG bytes;
  \<^item> \<open>canvas_page can\<close>: \<open>can.save()\<close> and the first page of the PDF so written
    (\<open>PdfReader(packet).pages[0]\<close>);
  \<^item> \<open>merge_page p q\<close>: the page \<open>p\<close> after \<open>p.merge_page(q)\<close>;
  \<^item> \<open>writer_write ps\<close>: the bytes that a \<open>PdfWriter\<close> holding the pages \<open>ps\<close> writes;
  \<^item> \<open>exn_str e\<close>: \<open>str(e)\<close>.
\<close>

record ('c, 'd) libs =
  magic_from_buffer :: "bytes \<Rightarrow> exn + string"
  PdfReader_new :: "bytes \<Rightarrow> bool \<Rightarrow> exn + 'c PdfReader"
  qr_make :: "bool \<Rightarrow> QRCode \<Rightarrow> exn + QRCode"
  qr_image :: "image_factory \<Rightarrow> QRCode \<Rightarrow> exn + bytes"
  svg2rlg :: "bytes \<Rightarrow> exn + 'd"
  canvas_page :: "'d canvas \<Rightarrow> exn + 'c page"
  merge_page :: "'c page \<Rightarrow> 'c page \<Rightarrow> exn + 'c page"
  writer_write :: "'c page list \<Rightarrow> exn + bytes"
  exn_str :: "exn \<Rightarrow> string"

section \<open>\<open>generate_qr_code_svg\<close> (lines 25-59)\<close>

text \<open>
  The handler of the \<open>try\<close> logs the exception and raises it again, so an error of a
  library call is the error of the function.
\<close>

definition generate_qr_code_svg :: "('c, 'd) libs \<Rightarrow> string \<Rightarrow> exn + bytes" where
  "generate_qr_code_svg L content =
     (let qr = \<lparr>version = 1, error_correction = ERROR_CORRECT_L, box_size = 10, border = 4,
                data_list = []\<rparr>;
          qr = add_data content qr
      in case qr_make L True qr of
           Inl e \<Rightarrow> Inl e
         | Inr qr \<Rightarrow>
             (let factory = SvgPathImage
              in case qr_image L factory qr of
                   Inl e \<Rightarrow> Inl e
                 | Inr svg \<Rightarrow> Inr svg))"

section \<open>\<open>validate_pdf\<close> (lines 61-78)\<close>

text \<open>Every exception inside the \<open>try\<close> is caught and turned into \<open>False\<close>.\<close>

definition validate_pdf :: "('c, 'd) libs \<Rightarrow> bytes \<Rightarrow> bool" where
  "validate_pdf L pdf_bytes =
     (case PdfReader_new L pdf_bytes False of
        Inl e \<Rightarrow> False
      | Inr reader \<Rightarrow>
          (case pages_len reader of
             Inl e \<Rightarrow> False
           | Inr n \<Rightarrow>
               if n = 0 then False
               else (case pages_get reader 0 of
                       Inl e \<Rightarrow> False
                     | Inr first \<Rightarrow> True)))"

section \<open>\<open>add_qr_to_pdf\<close> (lines 80-158)\<close>

text \<open>
  Lines 118-139: the overlay canvas of the page size, the size and position of the QR
  code, the white background and the drawing.
\<close>

definition draw_overlay :: "real \<Rightarrow> real \<Rightarrow> 'd \<Rightarrow> exn + 'd canvas" where
  "draw_overlay page_width page_height drawing =
     (let can = Canvas (page_width, page_height)
      in case qr_size page_width page_height of
           Inl e \<Rightarrow> Inl e
         | Inr qr_sz \<Rightarrow>
             (let margin = 20;
                  padding = 2;
                  x = page_width - qr_sz - margin - padding;
                  y = page_height - qr_sz - margin - padding;
                  can = setFillColorRGB 1 1 1 can;
                  can = rect (x - padding) (y - padding) (qr_sz + 2 * padding)
                          (qr_sz + 2 * padding) 1 0 can;
                  can = renderPDF_draw drawing x y can
              in Inr can))"

text \<open>
  Lines 148-149: the loop over \<open>reader.pages[1:]\<close>, which fetches the page of each index
  in turn and adds it to the writer (the list of pages added so far).
\<close>

fun add_pages ::
  "(nat \<Rightarrow> exn + 'c page) \<Rightarrow> nat list \<Rightarrow> 'c page list \<Rightarrow> exn + 'c page list" where
  "add_pages get [] writer = Inr writer"
| "add_pages get (i # is) writer =
     (case get i of
        Inl e \<Rightarrow> Inl e
      | Inr page \<Rightarrow> add_pages get is (writer @ [page]))"

text \<open>Lines 95-149: the pages the writer holds when it is written.\<close>

definition writer_pages :: "('c, 'd) libs \<Rightarrow> bytes \<Rightarrow> string \<Rightarrow> exn + 'c page list" where
  "writer_pages L pdf_bytes qr_content =
     (if \<not> validate_pdf L pdf_bytes
      then Inl (HTTPException 400 ''Invalid or corrupted PDF file'')
      else case PdfReader_new L pdf_bytes False of
        Inl e \<Rightarrow> Inl e
      | Inr reader \<Rightarrow>
      (case pages_len reader of
        Inl e \<Rightarrow> Inl e
      | Inr n \<Rightarrow>
      if n = 0 then Inl (HTTPException 400 ''PDF file is empty'')
      else case pages_get reader 0 of
        Inl e \<Rightarrow> Inl e
      | Inr first_page \<Rightarrow>
      (let page_width = mediabox_width first_page;
           page_height = mediabox_height first_page
       in case generate_qr_code_svg L qr_content of
        Inl e \<Rightarrow> Inl e
      | Inr qr_svg \<Rightarrow>
      (case svg2rlg L qr_svg of
        Inl e \<Rightarrow> Inl e
      | Inr drawing \<Rightarrow>
      (case draw_overlay page_width page_height drawing of
        Inl e \<Rightarrow> Inl e
      | Inr can \<Rightarrow>
      (case canvas_page L can of
        Inl e \<Rightarrow> Inl e
      | Inr qr_page \<Rightarrow>
      (case merge_page L first_page qr_page of
        Inl e \<Rightarrow> Inl e
      | Inr first_page \<Rightarrow>
          add_pages (pages_get reader) [1..<n] [first_page])))))))"

text \<open>
  Lines 151-158: the writer is written to the output stream; the handler logs and raises
  again.
\<close>

definition add_qr_to_pdf :: "('c, 'd) libs \<Rightarrow> bytes \<Rightarrow> string \<Rightarrow> exn + bytes" where
  "add_qr_to_pdf L pdf_bytes qr_content =
     (case writer_pages L pdf_bytes qr_content of
        Inl e \<Rightarrow> Inl e
      | Inr writer \<Rightarrow> writer_write L writer)"

section \<open>The endpoint (lines 160-204)\<close>

text \<open>An uploaded file: its name, its bytes and the position of the next read.\<close>

record UploadFile =
  filename :: string
  file_data :: bytes
  file_pos :: nat

definition read_size :: "nat \<Rightarrow> UploadFile \<Rightarrow> bytes \<times> UploadFile" where
  "read_size n f =
     (let chunk = take n (drop (file_pos f) (file_data f))
      in (chunk, f\<lparr>file_pos := file_pos f + length chunk\<rparr>))"

definition read_rest :: "UploadFile \<Rightarrow> bytes \<times> UploadFile" where
  "read_rest f =
     (let chunk = drop (file_pos f) (file_data f)
      in (chunk, f\<lparr>file_pos := file_pos f + length chunk\<rparr>))"

definition seek :: "nat \<Rightarrow> UploadFile \<Rightarrow> UploadFile" where
  "seek n f = f\<lparr>file_pos := n\<rparr>"

record StreamingResponse =
  body :: bytes
  media_type :: string
  headers :: "(string \<times> string) list"

text \<open>Lines 187-188: \<open>seek(0)\<close>, then \<open>first_chunk + read()\<close>.\<close>

definition read_complete_file :: "bytes \<Rightarrow> UploadFile \<Rightarrow> bytes \<times> UploadFile" where
  "read_complete_file first_chunk f =
     (let f = seek 0 f
      in case read_rest f of (rest, f) \<Rightarrow> (first_chunk @ rest, f))"

text \<open>The body of the \<open>try\<close>, lines 178-200.\<close>

definition endpoint_try ::
  "('c, 'd) libs \<Rightarrow> UploadFile \<Rightarrow> string \<Rightarrow> exn + StreamingResponse" where
  "endpoint_try L pdf_file qr_content =
     (case read_size 2048 pdf_file of (first_chunk, f) \<Rightarrow>
      (case magic_from_buffer L first_chunk of
         Inl e \<Rightarrow> Inl e
       | Inr content_type \<Rightarrow>
           if content_type \<noteq> ''application/pdf''
           then Inl (HTTPException 400 ''Uploaded file is not a PDF'')
           else (case read_complete_file first_chunk f of (pdf_bytes, f) \<Rightarrow>
             (case add_qr_to_pdf L pdf_bytes qr_content of
                Inl e \<Rightarrow> Inl e
              | Inr result_bytes \<Rightarrow>
                  Inr \<lparr>body = result_bytes, media_type = ''application/pdf'',
                       headers = [(''Content-Disposition'',
                                   ''attachment; filename=modified_'' @ filename pdf_file)]\<rparr>))))"

text \<open>
  Lines 201-204: \<open>except Exception\<close> catches every exception of the body, an
  \<open>HTTPException\<close> among them, and raises an \<open>HTTPException\<close> of status 500 whose detail
  is \<open>str(e)\<close>.
\<close>

definition add_qr_to_pdf_endpoint ::
  "('c, 'd) libs \<Rightarrow> UploadFile \<Rightarrow> string \<Rightarrow> exn + StreamingResponse" where
  "add_qr_to_pdf_endpoint L pdf_file qr_content =
     (case endpoint_try L pdf_file qr_content of
        Inl e \<Rightarrow> Inl (HTTPException 500 (exn_str L e))
      | Inr response \<Rightarrow> Inr response)"

section \<open>What the QR library promises\<close>

text \<open>
  \<open>fits ec v data\<close> says that a symbol of version \<open>v\<close> holds \<open>data\<close> at the
  error-correction level \<open>ec\<close>. The library's \<open>make(fit=True)\<close> searches the versions
  from the symbol's own up to 40 for the first that holds the data, and raises
  \<open>DataOverflowError\<close> when there is none. \<open>fit_semantics L fits\<close> says that the
  library \<open>L\<close> behaves so.
\<close>

definition best_fit ::
  "(error_correction_level \<Rightarrow> nat \<Rightarrow> string list \<Rightarrow> bool) \<Rightarrow> QRCode \<Rightarrow> exn + QRCode" where
  "best_fit fits qr =
     (case find (\<lambda>v. fits (error_correction qr) v (data_list qr)) [version qr..<41] of
        None \<Rightarrow> Inl (PyError ''DataOverflowError'')
      | Some v \<Rightarrow> Inr (qr\<lparr>version := v\<rparr>))"

definition fit_semantics ::
  "('c, 'd) libs \<Rightarrow> (error_correction_level \<Rightarrow> nat \<Rightarrow> string list \<Rightarrow> bool) \<Rightarrow> bool" where
  "fit_semantics L fits = (\<forall>qr. qr_make L True qr = best_fit fits qr)"

section \<open>Stand-ins for the libraries\<close>

text \<open>
  A small instance of \<open>libs\<close>, on which the functions of the service can be run. The
  content of a page is its number and the operations painted over it; a drawing is the
  SVG bytes it was read from; a symbol of version \<open>v\<close> holds \<open>17 * v\<close> characters; the
  sniffer knows the four bytes \<open>%PDF\<close>; the parser reads one document, \<open>demo_pdf\<close>, of
  three pages of 200 by 200 points.
\<close>

definition pdf_magic :: bytes where
  "pdf_magic = [0x25, 0x50, 0x44, 0x46]"

definition demo_pdf :: bytes where
  "demo_pdf = [0x25, 0x50, 0x44, 0x46, 0x2D, 0x31, 0x2E, 0x34]"

definition demo_page :: "nat \<Rightarrow> (nat \<times> bytes draw_op list) page" where
  "demo_page i = \<lparr>mediabox_width = 200, mediabox_height = 200, contents = (i, [])\<rparr>"

definition demo_reader :: "(nat \<times> bytes draw_op list) PdfReader" where
  "demo_reader =
     \<lparr>pages_len = Inr 3,
      pages_get = (\<lambda>i. if i < 3 then Inr (demo_page i) else Inl (PyError ''IndexError''))\<rparr>"

definition demo_fits :: "error_correction_level \<Rightarrow> nat \<Rightarrow> string list \<Rightarrow> bool" where
  "demo_fits ec v data = (length (concat data) \<le> 17 * v)"

definition demo_str :: "exn \<Rightarrow> string" where
  "demo_str e =
     (case e of
        HTTPException code msg \<Rightarrow>
          (if code = 400 then ''400'' else if code = 500 then ''500'' else ''000'') @ '': '' @ msg
      | PyError name \<Rightarrow> name)"

definition demo_libs :: "(nat \<times> bytes draw_op list, bytes) libs" where
  "demo_libs =
     \<lparr>magic_from_buffer =
        (\<lambda>b. Inr (if take 4 b = pdf_magic then ''application/pdf'' else ''image/jpeg'')),
      PdfReader_new =
        (\<lambda>b strict. if b = demo_pdf then Inr demo_reader else Inl (PyError ''PdfReadError'')),
      qr_make = (\<lambda>fit qr. if fit then best_fit demo_fits qr else Inr qr),
      qr_image =
        (\<lambda>factory qr. Inr [of_nat (version qr), of_nat (box_size qr), of_nat (border qr)]),
      svg2rlg = (\<lambda>b. Inr b),
      canvas_page =
        (\<lambda>can. Inr \<lparr>mediabox_width = fst (pagesize can), mediabox_height = snd (pagesize can),
                     contents = (0, ops can)\<rparr>),
      merge_page =
        (\<lambda>p q. Inr (p\<lparr>contents := (fst (contents p), snd (contents p) @ snd (contents q))\<rparr>)),
      writer_write = (\<lambda>ps. Inr (map (\<lambda>p. of_nat (fst (contents p))) ps)),
      exn_str = demo_str\<rparr>"

section \<open>Properties of the size\<close>

lemma clamp_floor_wins_max_min: "clamp_floor_wins t lo hi = max lo (min t hi)"
  by (simp add: clamp_floor_wins_def max_def min_def)

lemma clamp_between:
  fixes t :: real
  assumes "lo \<le> c * m"
  shows "lo \<le> max lo (min t (m * c)) \<and> max lo (min t (m * c)) \<le> c * m"
  using assms by (auto simp: mult.commute)

lemma clamp_floor:
  fixes t :: real
  assumes "c * m < lo"
  shows "max lo (min t (m * c)) = lo \<and> c * m < lo"
  using assms by (auto simp: mult.commute max_def min_def)

lemma qr_size_nonneg_area:
  "0 \<le> W * H \<Longrightarrow> qr_size W H = Inr (max 100 (min ((W * H) powr 0.3 * 0.1) (min W H * 0.2)))"
  by (simp add: qr_size_def pow_0_3_def Let_def)

lemma qr_size_negative_area: "W * H < 0 \<Longrightarrow> qr_size W H = Inl (PyError ''TypeError'')"
  by (simp add: qr_size_def pow_0_3_def)

text \<open>
  C1. For a page of positive width and height the computed size is the target size
  \<open>0.1 * (W * H) ** 0.3\<close> clamped between the floor 100 and the ceiling
  \<open>0.2 * min(W, H)\<close>, the floor winning; that is
  \<open>max(100, min(0.1 * (W * H) ** 0.3, 0.2 * min(W, H)))\<close>.
\<close>

theorem qr_size_is_clamped_target:
  assumes "0 < W" and "0 < H"
  shows "qr_size W H =
           Inr (clamp_floor_wins (spec_target_size W H) spec_min_size (spec_max_size W H))
       \<and> qr_size W H = Inr (max 100 (min (0.1 * (W * H) powr 0.3) (0.2 * min W H)))"
proof -
  from assms have "0 \<le> W * H" by simp
  then have "qr_size W H = Inr (max 100 (min ((W * H) powr 0.3 * 0.1) (min W H * 0.2)))"
    by (rule qr_size_nonneg_area)
  then show ?thesis
    by (simp add: clamp_floor_wins_max_min spec_target_size_def spec_min_size_def
        spec_max_size_def mult.commute)
qed

theorem qr_size_is_clamped_target_witness:
  "qr_size 612 792 =
     Inr (clamp_floor_wins (spec_target_size 612 792) spec_min_size (spec_max_size 612 792))
   \<and> qr_size 612 792 = Inr (max 100 (min (0.1 * (612 * 792) powr 0.3) (0.2 * min 612 792)))"
  by (rule qr_size_is_clamped_target) simp_all

text \<open>
  C7. When the shorter side of the page is at least 500, the size lies between the floor
  100 and the ceiling \<open>0.2 * min(W, H)\<close>.
\<close>

theorem qr_size_within_bounds:
  assumes "500 \<le> min W H"
  shows "\<exists>s. qr_size W H = Inr s \<and> 100 \<le> s \<and> s \<le> 0.2 * min W H"
proof -
  from assms have "0 \<le> W" and "0 \<le> H" by simp_all
  then have "0 \<le> W * H" by simp
  then have "qr_size W H = Inr (max 100 (min ((W * H) powr 0.3 * 0.1) (min W H * 0.2)))"
    by (rule qr_size_nonneg_area)
  moreover from assms have "100 \<le> 0.2 * min W H" by simp
  then have "100 \<le> max 100 (min ((W * H) powr 0.3 * 0.1) (min W H * 0.2))
           \<and> max 100 (min ((W * H) powr 0.3 * 0.1) (min W H * 0.2)) \<le> 0.2 * min W H"
    by (rule clamp_between)
  ultimately show ?thesis by simp
qed

theorem qr_size_within_bounds_witness:
  "\<exists>s. qr_size 612 792 = Inr s \<and> 100 \<le> s \<and> s \<le> 0.2 * min 612 792"
  using qr_size_within_bounds [of 612 792] by simp

text \<open>
  C8. When the shorter side of a page is below 500 and the product of width and height
  is not negative, the size is exactly the floor 100, which is then above the ceiling
  \<open>0.2 * min(W, H)\<close>. (The specification states this for every \<open>W\<close> and \<open>H\<close> with
  \<open>min(W, H) < 500\<close>; a box of negative area gets no size, as shown below.)
\<close>

theorem qr_size_floor_wins:
  assumes "0 \<le> W * H" and "min W H < 500"
  shows "qr_size W H = Inr 100 \<and> 0.2 * min W H < 100"
proof -
  from assms(1)
  have "qr_size W H = Inr (max 100 (min ((W * H) powr 0.3 * 0.1) (min W H * 0.2)))"
    by (rule qr_size_nonneg_area)
  moreover from assms(2) have "0.2 * min W H < 100" by simp
  then have "max 100 (min ((W * H) powr 0.3 * 0.1) (min W H * 0.2)) = 100
           \<and> 0.2 * min W H < 100"
    by (rule clamp_floor)
  ultimately show ?thesis by simp
qed

theorem qr_size_floor_wins_witness:
  "qr_size 200 200 = Inr 100 \<and> 0.2 * min 200 200 < (100::real)
   \<and> qr_size 0 100 = Inr 100 \<and> 0.2 * min 0 100 < (100::real)"
  using qr_size_floor_wins [of 200 200] qr_size_floor_wins [of 0 100] by simp

text \<open>
  A media box of width -100 and height 100 has its shorter side below 500, and the size
  computation raises \<open>TypeError\<close> at line 126 instead of giving 100.
\<close>

theorem qr_size_negative_box_counterexample:
  "min (- 100) 100 < (500::real)
   \<and> qr_size (- 100) 100 = Inl (PyError ''TypeError'')
   \<and> qr_size (- 100) 100 \<noteq> Inr 100"
  by (simp add: qr_size_def pow_0_3_def)

section \<open>Properties of the overlay\<close>

lemma qr_size_small_page:
  "0 \<le> W * H \<Longrightarrow> min W H \<le> 500 \<Longrightarrow> qr_size W H = Inr 100"
  by (auto simp: qr_size_def pow_0_3_def Let_def max_def min_def)

lemma draw_overlay_ops:
  assumes "qr_size W H = Inr s"
  shows "draw_overlay W H d =
           Inr \<lparr>pagesize = (W, H),
                ops = [SetFillColorRGB 1 1 1,
                       Rect (W - s - 20 - 2 - 2) (H - s - 20 - 2 - 2) (s + 2 * 2) (s + 2 * 2) 1 0,
                       DrawDrawing d (W - s - 20 - 2) (H - s - 20 - 2)]\<rparr>"
  using assms
  by (simp add: draw_overlay_def Canvas_def setFillColorRGB_def rect_def renderPDF_draw_def
      Let_def)

lemma draw_overlay_negative_area:
  "W * H < 0 \<Longrightarrow> draw_overlay W H d = Inl (PyError ''TypeError'')"
  by (simp add: draw_overlay_def qr_size_negative_area)

text \<open>
  C2. On a page of width \<open>W\<close> and height \<open>H\<close> whose product is not negative, with
  margin 20 and padding 2, the canvas of the overlay holds, in this order: the white fill
  colour, a filled rectangle without stroke at \<open>(x - 2, y - 2)\<close> of side
  \<open>qr_size + 2 * 2\<close>, and the QR drawing at \<open>(x, y)\<close>, where
  \<open>x = W - qr_size - 20 - 2\<close> and \<open>y = H - qr_size - 20 - 2\<close>. (The specification
  states this for every page; on a box of negative area nothing is drawn, as shown
  below.)
\<close>

theorem overlay_placement:
  assumes "0 \<le> W * H"
  shows "\<exists>s. qr_size W H = Inr s
           \<and> draw_overlay W H d =
               Inr \<lparr>pagesize = (W, H),
                    ops = [SetFillColorRGB 1 1 1,
                           Rect (W - s - 20 - 2 - 2) (H - s - 20 - 2 - 2)
                             (s + 2 * 2) (s + 2 * 2) 1 0,
                           DrawDrawing d (W - s - 20 - 2) (H - s - 20 - 2)]\<rparr>"
proof -
  from assms
  have "qr_size W H = Inr (max 100 (min ((W * H) powr 0.3 * 0.1) (min W H * 0.2)))"
    by (rule qr_size_nonneg_area)
  then obtain s where s: "qr_size W H = Inr s" ..
  show ?thesis
  proof (intro exI conjI)
    show "qr_size W H = Inr s" by (rule s)
    show "draw_overlay W H d =
            Inr \<lparr>pagesize = (W, H),
                 ops = [SetFillColorRGB 1 1 1,
                        Rect (W - s - 20 - 2 - 2) (H - s - 20 - 2 - 2)
                          (s + 2 * 2) (s + 2 * 2) 1 0,
                        DrawDrawing d (W - s - 20 - 2) (H - s - 20 - 2)]\<rparr>"
      using s by (rule draw_overlay_ops)
  qed
qed

theorem overlay_placement_witness:
  "draw_overlay 200 200 [1, 10, 4 :: byte] =
     Inr \<lparr>pagesize = (200, 200),
          ops = [SetFillColorRGB 1 1 1, Rect 76 76 104 104 1 0,
                 DrawDrawing [1, 10, 4] 78 78]\<rparr>"
proof -
  have "(0::real) \<le> 200 * 200" by simp
  from overlay_placement [OF this, of "[1, 10, 4 :: byte]"]
  obtain s where s: "qr_size 200 200 = Inr s"
    and d: "draw_overlay 200 200 [1, 10, 4 :: byte] =
              Inr \<lparr>pagesize = (200, 200),
                   ops = [SetFillColorRGB 1 1 1,
                          Rect (200 - s - 20 - 2 - 2) (200 - s - 20 - 2 - 2)
                            (s + 2 * 2) (s + 2 * 2) 1 0,
                          DrawDrawing [1, 10, 4] (200 - s - 20 - 2) (200 - s - 20 - 2)]\<rparr>"
    by blast
  have "qr_size 200 200 = Inr 100"
    by (rule qr_size_small_page) simp_all
  with s have "s = 100" by simp
  with d show ?thesis by simp
qed

text \<open>
  On a media box of width -100 and height 100 the size computation raises \<open>TypeError\<close>
  at line 126, before anything is drawn: there is no canvas, no rectangle and no QR
  image.
\<close>

theorem overlay_negative_box_counterexample:
  "draw_overlay (- 100) 100 [1, 10, 4 :: byte] = Inl (PyError ''TypeError'')
   \<and> draw_overlay (- 100) 100 [1, 10, 4 :: byte]
       \<noteq> Inr \<lparr>pagesize = (- 100, 100),
                 ops = [SetFillColorRGB 1 1 1, Rect (- 224) (- 24) 104 104 1 0,
                        DrawDrawing [1, 10, 4] (- 222) (- 22)]\<rparr>"
  by (simp add: draw_overlay_def qr_size_def pow_0_3_def)

text \<open>
  C10. On a page whose width is below \<open>qr_size + 22\<close> the coordinate
  \<open>x = W - qr_size - 20 - 2\<close> is negative, and the rectangle and the drawing are still
  put at \<open>x - 2\<close> and \<open>x\<close>, left of the page's edge: nothing clamps them to the page.
\<close>

theorem overlay_past_left_edge:
  assumes "0 < W" and "0 < H" and "qr_size W H = Inr s" and "W < s + 22"
  shows "W - s - 20 - 2 < 0
       \<and> draw_overlay W H d =
           Inr \<lparr>pagesize = (W, H),
                ops = [SetFillColorRGB 1 1 1,
                       Rect (W - s - 20 - 2 - 2) (H - s - 20 - 2 - 2)
                         (s + 2 * 2) (s + 2 * 2) 1 0,
                       DrawDrawing d (W - s - 20 - 2) (H - s - 20 - 2)]\<rparr>"
proof
  from assms(4) show "W - s - 20 - 2 < 0" by simp
  from assms(3) show "draw_overlay W H d =
           Inr \<lparr>pagesize = (W, H),
                ops = [SetFillColorRGB 1 1 1,
                       Rect (W - s - 20 - 2 - 2) (H - s - 20 - 2 - 2)
                         (s + 2 * 2) (s + 2 * 2) 1 0,
                       DrawDrawing d (W - s - 20 - 2) (H - s - 20 - 2)]\<rparr>"
    by (rule draw_overlay_ops)
qed

theorem overlay_past_left_edge_witness:
  "qr_size 100 100 = Inr 100 \<and> (100::real) - 100 - 20 - 2 < 0
   \<and> draw_overlay 100 100 [1, 10, 4 :: byte] =
       Inr \<lparr>pagesize = (100, 100),
            ops = [SetFillColorRGB 1 1 1, Rect (- 24) (- 24) 104 104 1 0,
                   DrawDrawing [1, 10, 4] (- 22) (- 22)]\<rparr>"
proof -
  have s: "qr_size 100 100 = Inr 100"
    by (rule qr_size_small_page) simp_all
  from overlay_past_left_edge [of 100 100 100 "[1, 10, 4 :: byte]", OF _ _ s] s
  show ?thesis by simp
qed

section \<open>Properties of the validator\<close>

lemma validate_pdf_iff:
  "validate_pdf L b =
     (\<exists>reader n first. PdfReader_new L b False = Inr reader \<and> pages_len reader = Inr n
        \<and> n \<noteq> 0 \<and> pages_get reader 0 = Inr first)"
  by (auto simp: validate_pdf_def split: sum.splits)

text \<open>
  C5. \<open>validate_pdf\<close> returns a boolean on every byte buffer: each exception of the
  parser is caught inside it. It returns \<open>True\<close> exactly when the lenient parse
  (\<open>strict=False\<close>) succeeds, the document has at least one page and its first page can
  be read; it returns \<open>False\<close> when the parser raises (as it does on an empty buffer and
  on content that is not a PDF), when the pages cannot be counted, when there is no page,
  and when the first page cannot be read.
\<close>

theorem validate_pdf_fails_closed:
  "(validate_pdf L b \<longleftrightarrow>
      (\<exists>reader n first. PdfReader_new L b False = Inr reader \<and> pages_len reader = Inr n
         \<and> n \<noteq> 0 \<and> pages_get reader 0 = Inr first))
   \<and> (PdfReader_new L b False = Inl e \<longrightarrow> \<not> validate_pdf L b)
   \<and> (PdfReader_new L b False = Inr reader \<and> pages_len reader = Inl e \<longrightarrow> \<not> validate_pdf L b)
   \<and> (PdfReader_new L b False = Inr reader \<and> pages_len reader = Inr 0 \<longrightarrow> \<not> validate_pdf L b)
   \<and> (PdfReader_new L b False = Inr reader \<and> pages_get reader 0 = Inl e
        \<longrightarrow> \<not> validate_pdf L b)"
proof (intro conjI impI)
  show "validate_pdf L b \<longleftrightarrow>
      (\<exists>reader n first. PdfReader_new L b False = Inr reader \<and> pages_len reader = Inr n
         \<and> n \<noteq> 0 \<and> pages_get reader 0 = Inr first)"
    by (rule validate_pdf_iff)
next
  assume "PdfReader_new L b False = Inl e"
  then show "\<not> validate_pdf L b" by (simp add: validate_pdf_def)
next
  assume "PdfReader_new L b False = Inr reader \<and> pages_len reader = Inl e"
  then show "\<not> validate_pdf L b" by (simp add: validate_pdf_def)
next
  assume "PdfReader_new L b False = Inr reader \<and> pages_len reader = Inr 0"
  then show "\<not> validate_pdf L b" by (simp add: validate_pdf_def)
next
  assume "PdfReader_new L b False = Inr reader \<and> pages_get reader 0 = Inl e"
  then show "\<not> validate_pdf L b" by (auto simp: validate_pdf_def split: sum.splits)
qed

lemma demo_PdfReader_new:
  "PdfReader_new demo_libs b strict =
     (if b = demo_pdf then Inr demo_reader else Inl (PyError ''PdfReadError''))"
  by (simp add: demo_libs_def)

theorem validate_pdf_fails_closed_witness:
  "PdfReader_new demo_libs [] False = Inl (PyError ''PdfReadError'')
   \<and> \<not> validate_pdf demo_libs []
   \<and> validate_pdf demo_libs demo_pdf"
proof -
  have e: "PdfReader_new demo_libs [] False = Inl (PyError ''PdfReadError'')"
    by (simp add: demo_PdfReader_new demo_pdf_def)
  have "\<not> validate_pdf demo_libs []"
    using validate_pdf_fails_closed [of demo_libs "[]" "PyError ''PdfReadError''"] e by blast
  moreover have "validate_pdf demo_libs demo_pdf"
    using validate_pdf_fails_closed [of demo_libs demo_pdf]
    by (simp add: demo_PdfReader_new demo_reader_def)
  ultimately show ?thesis using e by simp
qed

section \<open>Properties of the assembled document\<close>

lemma add_pages_result:
  "add_pages get idxs w = Inr out \<Longrightarrow> \<exists>rest. out = w @ rest \<and> map Inr rest = map get idxs"
proof (induction idxs arbitrary: w)
  case Nil
  then show ?case by simp
next
  case (Cons i idxs)
  from Cons.prems obtain page where page: "get i = Inr page"
    and rec: "add_pages get idxs (w @ [page]) = Inr out"
    by (auto split: sum.splits)
  from Cons.IH [OF rec] obtain rest where "out = (w @ [page]) @ rest"
    and "map Inr rest = map get idxs"
    by blast
  with page have "out = w @ (page # rest) \<and> map Inr (page # rest) = map get (i # idxs)"
    by simp
  then show ?case by blast
qed

lemma writer_pages_success:
  assumes "writer_pages L b q = Inr out"
  shows "\<exists>reader n first qr_page merged.
           PdfReader_new L b False = Inr reader \<and> pages_len reader = Inr n \<and> n \<noteq> 0
         \<and> pages_get reader 0 = Inr first \<and> merge_page L first qr_page = Inr merged
         \<and> add_pages (pages_get reader) [1..<n] [merged] = Inr out"
proof -
  from assms have v: "validate_pdf L b"
    by (simp add: writer_pages_def split: if_splits)
  from assms v obtain reader where reader: "PdfReader_new L b False = Inr reader"
    by (auto simp: writer_pages_def split: sum.splits)
  from assms v reader obtain n where n: "pages_len reader = Inr n"
    by (auto simp: writer_pages_def split: sum.splits)
  from assms v reader n have n0: "n \<noteq> 0"
    by (auto simp: writer_pages_def split: if_splits)
  from assms v reader n n0 obtain first where first: "pages_get reader 0 = Inr first"
    by (auto simp: writer_pages_def split: sum.splits)
  from assms v reader n n0 first
  obtain qr_page merged where "merge_page L first qr_page = Inr merged"
    and "add_pages (pages_get reader) [1..<n] [merged] = Inr out"
    by (auto simp: writer_pages_def Let_def split: sum.splits)
  with reader n n0 first show ?thesis by blast
qed

text \<open>
  C4. When \<open>add_qr_to_pdf\<close> succeeds on a document of \<open>n\<close> pages (the parser's count,
  at least 1), the document it writes has exactly \<open>n\<close> pages; its pages 2 to \<open>n\<close> are
  the input's pages 2 to \<open>n\<close> as the reader returns them, in order and unchanged; and
  its first page is the input's first page merged with the overlay page.
\<close>

theorem pages_pass_through:
  assumes "add_qr_to_pdf L b q = Inr result"
  shows "\<exists>out reader n first qr_page.
           writer_pages L b q = Inr out \<and> writer_write L out = Inr result
         \<and> PdfReader_new L b False = Inr reader \<and> pages_len reader = Inr n \<and> 1 \<le> n
         \<and> length out = n
         \<and> map Inr (drop 1 out) = map (pages_get reader) [1..<n]
         \<and> (\<forall>i. 1 \<le> i \<and> i < n \<longrightarrow> pages_get reader i = Inr (out ! i))
         \<and> pages_get reader 0 = Inr first \<and> merge_page L first qr_page = Inr (out ! 0)"
proof -
  from assms obtain out where out: "writer_pages L b q = Inr out"
    and written: "writer_write L out = Inr result"
    by (auto simp: add_qr_to_pdf_def split: sum.splits)
  from writer_pages_success [OF out]
  obtain reader n first qr_page merged where reader: "PdfReader_new L b False = Inr reader"
    and n: "pages_len reader = Inr n" and n0: "n \<noteq> 0"
    and first: "pages_get reader 0 = Inr first"
    and merged: "merge_page L first qr_page = Inr merged"
    and added: "add_pages (pages_get reader) [1..<n] [merged] = Inr out"
    by blast
  from add_pages_result [OF added] obtain rest where rest: "out = [merged] @ rest"
    and same: "map Inr rest = map (pages_get reader) [1..<n]"
    by blast
  from same have "length rest = length [1..<n]"
    by (rule map_eq_imp_length_eq)
  with rest n0 have len: "length out = n" by simp
  from rest same have tail: "map Inr (drop 1 out) = map (pages_get reader) [1..<n]"
    by simp
  have each: "\<forall>i. 1 \<le> i \<and> i < n \<longrightarrow> pages_get reader i = Inr (out ! i)"
  proof (intro allI impI)
    fix i assume "1 \<le> i \<and> i < n"
    then have i: "1 \<le> i" "i < n" by simp_all
    then have "i - 1 < length [1..<n]" by simp
    then have "map (pages_get reader) [1..<n] ! (i - 1) = pages_get reader ([1..<n] ! (i - 1))"
      by (rule nth_map)
    with i have l: "map (pages_get reader) [1..<n] ! (i - 1) = pages_get reader i"
      by simp
    from i len have "i - 1 < length (drop 1 out)" by simp
    then have "map Inr (drop 1 out) ! (i - 1) = Inr (drop 1 out ! (i - 1))"
      by (rule nth_map)
    with i len have "map Inr (drop 1 out) ! (i - 1) = Inr (out ! i)"
      by simp
    with l tail show "pages_get reader i = Inr (out ! i)" by metis
  qed
  from rest merged have "merge_page L first qr_page = Inr (out ! 0)" by simp
  with out written reader n n0 len tail each first show ?thesis
    by (intro exI [of _ out] exI [of _ reader] exI [of _ n] exI [of _ first]
        exI [of _ qr_page]) simp
qed

lemma upt_1_3: "[Suc 0..<3] = [Suc 0, 2]"
  by (simp add: upt_rec numeral_2_eq_2)

lemma demo_libs_fields:
  "magic_from_buffer demo_libs b =
     Inr (if take 4 b = pdf_magic then ''application/pdf'' else ''image/jpeg'')"
  "PdfReader_new demo_libs b strict =
     (if b = demo_pdf then Inr demo_reader else Inl (PyError ''PdfReadError''))"
  "qr_make demo_libs fit qr = (if fit then best_fit demo_fits qr else Inr qr)"
  "qr_image demo_libs factory qr =
     Inr [of_nat (version qr), of_nat (box_size qr), of_nat (border qr)]"
  "svg2rlg demo_libs b = Inr b"
  "canvas_page demo_libs can =
     Inr \<lparr>mediabox_width = fst (pagesize can), mediabox_height = snd (pagesize can),
          contents = (0, ops can)\<rparr>"
  "merge_page demo_libs p q =
     Inr (p\<lparr>contents := (fst (contents p), snd (contents p) @ snd (contents q))\<rparr>)"
  "writer_write demo_libs ps = Inr (map (\<lambda>p. of_nat (fst (contents p))) ps)"
  "exn_str demo_libs = demo_str"
  by (simp_all add: demo_libs_def)

lemma demo_reader_fields:
  "pages_len demo_reader = Inr 3"
  "pages_get demo_reader i = (if i < 3 then Inr (demo_page i) else Inl (PyError ''IndexError''))"
  by (simp_all add: demo_reader_def)

lemma demo_generate_qr_code_svg:
  "generate_qr_code_svg demo_libs ''hello'' = Inr [1, 10, 4]"
  by (simp add: generate_qr_code_svg_def demo_libs_fields best_fit_def add_data_def
      demo_fits_def upt_rec)

lemma demo_qr_size: "qr_size 200 200 = Inr 100"
  by (rule qr_size_small_page) simp_all

lemma demo_draw_overlay:
  "draw_overlay 200 200 [1, 10, 4 :: byte] =
     Inr \<lparr>pagesize = (200, 200),
          ops = [SetFillColorRGB 1 1 1, Rect 76 76 104 104 1 0,
                 DrawDrawing [1, 10, 4] 78 78]\<rparr>"
  using draw_overlay_ops [OF demo_qr_size, of "[1, 10, 4 :: byte]"] by simp

lemma demo_validate_pdf: "validate_pdf demo_libs demo_pdf"
  by (simp add: validate_pdf_def demo_libs_fields demo_reader_fields)

lemma demo_add_pages:
  "add_pages (pages_get demo_reader) [Suc 0..<3] [p] = Inr [p, demo_page (Suc 0), demo_page 2]"
  by (simp add: demo_reader_fields upt_1_3)

lemma demo_writer_pages:
  "writer_pages demo_libs demo_pdf ''hello'' =
     Inr [\<lparr>mediabox_width = 200, mediabox_height = 200,
           contents = (0, [SetFillColorRGB 1 1 1, Rect 76 76 104 104 1 0,
                           DrawDrawing [1, 10, 4] 78 78])\<rparr>,
          demo_page 1, demo_page 2]"
proof -
  have first: "mediabox_width (demo_page 0) = 200" "mediabox_height (demo_page 0) = 200"
    "contents (demo_page 0) = (0, [])"
    by (simp_all add: demo_page_def)
  have merged: "(demo_page 0)\<lparr>contents := (0, ps)\<rparr> =
      \<lparr>mediabox_width = 200, mediabox_height = 200, contents = (0, ps)\<rparr>" for ps
    by (simp add: demo_page_def)
  show ?thesis
    by (simp add: writer_pages_def demo_validate_pdf demo_libs_fields demo_reader_fields
        demo_generate_qr_code_svg first demo_draw_overlay merged demo_add_pages)
qed

lemma demo_add_qr_to_pdf: "add_qr_to_pdf demo_libs demo_pdf ''hello'' = Inr [0, 1, 2]"
  by (simp add: add_qr_to_pdf_def demo_writer_pages demo_libs_fields demo_page_def)

theorem pages_pass_through_witness:
  "add_qr_to_pdf demo_libs demo_pdf ''hello'' = Inr [0, 1, 2]
   \<and> (\<exists>out. writer_pages demo_libs demo_pdf ''hello'' = Inr out \<and> length out = 3
          \<and> drop 1 out = [demo_page 1, demo_page 2])"
proof -
  from pages_pass_through [OF demo_add_qr_to_pdf]
  obtain out reader n where out: "writer_pages demo_libs demo_pdf ''hello'' = Inr out"
    and reader: "PdfReader_new demo_libs demo_pdf False = Inr reader"
    and n: "pages_len reader = Inr n"
    and len: "length out = n"
    and tail: "map Inr (drop 1 out) = map (pages_get reader) [1..<n]"
    by blast
  from reader have r: "reader = demo_reader" by (simp add: demo_libs_fields)
  with n have n3: "n = 3" by (simp add: demo_reader_fields)
  from tail r n3
  have "map Inr (drop 1 out) = map (Inr :: _ \<Rightarrow> exn + _) [demo_page 1, demo_page 2]"
    by (simp add: demo_reader_fields upt_1_3)
  then have "drop 1 out = [demo_page 1, demo_page 2]"
    by (auto simp: map_eq_Cons_conv)
  with out len n3 demo_add_qr_to_pdf show ?thesis by simp
qed

section \<open>Properties of the endpoint\<close>

lemma read_size_from_start:
  "file_pos f = 0 \<Longrightarrow>
     read_size n f = (take n (file_data f), f\<lparr>file_pos := length (take n (file_data f))\<rparr>)"
  by (simp add: read_size_def Let_def)

lemma read_complete_file_bytes:
  "read_complete_file first_chunk f =
     (first_chunk @ file_data f, f\<lparr>file_pos := length (file_data f)\<rparr>)"
  by (simp add: read_complete_file_def read_rest_def seek_def Let_def)

lemma endpoint_try_buffer:
  assumes "file_pos f = 0"
    and "magic_from_buffer L (take 2048 (file_data f)) = Inr ''application/pdf''"
  shows "endpoint_try L f q =
           (case add_qr_to_pdf L (take 2048 (file_data f) @ file_data f) q of
              Inl e \<Rightarrow> Inl e
            | Inr result_bytes \<Rightarrow>
                Inr \<lparr>body = result_bytes, media_type = ''application/pdf'',
                     headers = [(''Content-Disposition'',
                                 ''attachment; filename=modified_'' @ filename f)]\<rparr>)"
  using assms
  by (simp add: endpoint_try_def read_size_from_start read_complete_file_bytes)

lemma duplicated_prefix:
  assumes "data \<noteq> []"
  shows "take 2048 data @ data \<noteq> data"
proof
  assume "take 2048 data @ data = data"
  then have "length (take 2048 data @ data) = length data" by simp
  with assms show False by (cases data) simp_all
qed

lemma add_qr_to_pdf_invalid:
  "\<not> validate_pdf L b \<Longrightarrow>
     add_qr_to_pdf L b q = Inl (HTTPException 400 ''Invalid or corrupted PDF file'')"
  by (simp add: add_qr_to_pdf_def writer_pages_def)

lemma endpoint_not_a_pdf:
  assumes "file_pos f = 0"
    and "magic_from_buffer L (take 2048 (file_data f)) = Inr content_type"
    and "content_type \<noteq> ''application/pdf''"
  shows "add_qr_to_pdf_endpoint L f q =
           Inl (HTTPException 500 (exn_str L (HTTPException 400 ''Uploaded file is not a PDF'')))"
  using assms
  by (simp add: add_qr_to_pdf_endpoint_def endpoint_try_def read_size_from_start)

lemma endpoint_invalid_pdf:
  assumes "file_pos f = 0"
    and "magic_from_buffer L (take 2048 (file_data f)) = Inr ''application/pdf''"
    and "\<not> validate_pdf L (take 2048 (file_data f) @ file_data f)"
  shows "add_qr_to_pdf_endpoint L f q =
           Inl (HTTPException 500
                 (exn_str L (HTTPException 400 ''Invalid or corrupted PDF file'')))"
  using assms
  by (simp add: add_qr_to_pdf_endpoint_def endpoint_try_buffer add_qr_to_pdf_invalid)

lemma endpoint_errors_are_500:
  "add_qr_to_pdf_endpoint L f q = Inl e \<Longrightarrow> \<exists>msg. e = HTTPException 500 msg"
  by (auto simp: add_qr_to_pdf_endpoint_def split: sum.splits)

text \<open>
  C3. The specification asks for status 400 when the sniffed type is not PDF and when the
  validator returns \<open>False\<close>. The endpoint answers 500 in both cases: the
  \<open>HTTPException\<close> of status 400 is raised inside the \<open>try\<close> whose handler turns every
  exception into status 500. Here on a JPEG header, and on bytes that sniff as PDF
  but do not parse.
\<close>

theorem endpoint_answers_500_for_user_errors:
  "add_qr_to_pdf_endpoint demo_libs
     \<lparr>filename = ''a.jpg'', file_data = [0xFF, 0xD8, 0xFF, 0xE0], file_pos = 0\<rparr> ''hello''
     = Inl (HTTPException 500 ''400: Uploaded file is not a PDF'')
   \<and> add_qr_to_pdf_endpoint demo_libs
     \<lparr>filename = ''b.pdf'', file_data = [0x25, 0x50, 0x44, 0x46, 0x00], file_pos = 0\<rparr> ''hello''
     = Inl (HTTPException 500 ''400: Invalid or corrupted PDF file'')"
proof
  show "add_qr_to_pdf_endpoint demo_libs
     \<lparr>filename = ''a.jpg'', file_data = [0xFF, 0xD8, 0xFF, 0xE0], file_pos = 0\<rparr> ''hello''
     = Inl (HTTPException 500 ''400: Uploaded file is not a PDF'')"
    by (simp add: endpoint_not_a_pdf [where content_type = "''image/jpeg''"]
        demo_libs_fields pdf_magic_def demo_str_def)
  have "\<not> validate_pdf demo_libs [0x25, 0x50, 0x44, 0x46, 0x00, 0x25, 0x50, 0x44, 0x46, 0x00]"
    by (simp add: validate_pdf_def demo_libs_fields demo_pdf_def)
  then show "add_qr_to_pdf_endpoint demo_libs
     \<lparr>filename = ''b.pdf'', file_data = [0x25, 0x50, 0x44, 0x46, 0x00], file_pos = 0\<rparr> ''hello''
     = Inl (HTTPException 500 ''400: Invalid or corrupted PDF file'')"
    by (simp add: endpoint_invalid_pdf demo_libs_fields pdf_magic_def demo_str_def)
qed

text \<open>
  C6. The specification asks that the buffer handed to the pipeline be the uploaded bytes. The
  endpoint reads the first 2048 bytes, seeks back to the start, reads the whole file and
  puts the first chunk in front of it: on the eight bytes of \<open>demo_pdf\<close> the buffer is
  those bytes twice.
\<close>

theorem upload_prefix_is_duplicated:
  "read_size 2048 \<lparr>filename = ''a.pdf'', file_data = demo_pdf, file_pos = 0\<rparr>
     = (demo_pdf, \<lparr>filename = ''a.pdf'', file_data = demo_pdf, file_pos = 8\<rparr>)
   \<and> read_complete_file demo_pdf \<lparr>filename = ''a.pdf'', file_data = demo_pdf, file_pos = 8\<rparr>
     = (demo_pdf @ demo_pdf, \<lparr>filename = ''a.pdf'', file_data = demo_pdf, file_pos = 8\<rparr>)
   \<and> demo_pdf @ demo_pdf \<noteq> demo_pdf
   \<and> endpoint_try demo_libs \<lparr>filename = ''a.pdf'', file_data = demo_pdf, file_pos = 0\<rparr> ''hello''
     = (case add_qr_to_pdf demo_libs (demo_pdf @ demo_pdf) ''hello'' of
          Inl e \<Rightarrow> Inl e
        | Inr result_bytes \<Rightarrow>
            Inr \<lparr>body = result_bytes, media_type = ''application/pdf'',
                 headers = [(''Content-Disposition'',
                             ''attachment; filename=modified_a.pdf'')]\<rparr>)"
proof -
  have len: "length demo_pdf = 8" by (simp add: demo_pdf_def)
  have sniff: "magic_from_buffer demo_libs demo_pdf = Inr ''application/pdf''"
    by (simp add: demo_libs_fields demo_pdf_def pdf_magic_def)
  have "read_size 2048 \<lparr>filename = ''a.pdf'', file_data = demo_pdf, file_pos = 0\<rparr>
     = (demo_pdf, \<lparr>filename = ''a.pdf'', file_data = demo_pdf, file_pos = 8\<rparr>)"
    by (simp add: read_size_from_start len)
  moreover
  have "read_complete_file demo_pdf \<lparr>filename = ''a.pdf'', file_data = demo_pdf, file_pos = 8\<rparr>
     = (demo_pdf @ demo_pdf, \<lparr>filename = ''a.pdf'', file_data = demo_pdf, file_pos = 8\<rparr>)"
    by (simp add: read_complete_file_bytes len)
  moreover have "demo_pdf @ demo_pdf \<noteq> demo_pdf"
    by (simp add: demo_pdf_def)
  moreover
  have "endpoint_try demo_libs \<lparr>filename = ''a.pdf'', file_data = demo_pdf, file_pos = 0\<rparr> ''hello''
     = (case add_qr_to_pdf demo_libs (demo_pdf @ demo_pdf) ''hello'' of
          Inl e \<Rightarrow> Inl e
        | Inr result_bytes \<Rightarrow>
            Inr \<lparr>body = result_bytes, media_type = ''application/pdf'',
                 headers = [(''Content-Disposition'',
                             ''attachment; filename=modified_a.pdf'')]\<rparr>)"
    using sniff by (simp add: endpoint_try_buffer len cong: sum.case_cong)
  ultimately show ?thesis by (intro conjI)
qed

section \<open>Properties of the QR encoder\<close>

lemma find_upt_none:
  assumes "\<not> (\<exists>v. a \<le> v \<and> v < b \<and> P v)"
  shows "find P [a..<b] = None"
  using assms by (simp add: find_None_iff)

lemma find_upt_least:
  assumes "a \<le> v" and "v < b" and "P v"
  shows "find P [a..<b] = Some (LEAST v. a \<le> v \<and> P v)"
proof -
  let ?m = "LEAST v. a \<le> v \<and> P v"
  from assms have "a \<le> ?m \<and> P ?m"
    by (intro LeastI [of "\<lambda>v. a \<le> v \<and> P v" v]) simp
  then have m: "a \<le> ?m" "P ?m" by simp_all
  from assms have "?m \<le> v"
    by (intro Least_le) simp
  with assms have mb: "?m < b" by simp
  have before: "\<not> P j" if "a \<le> j" and "j < ?m" for j
    using not_less_Least [OF that(2)] that(1) by simp
  have "\<exists>i<length [a..<b]. P ([a..<b] ! i) \<and> ?m = [a..<b] ! i
          \<and> (\<forall>j<i. \<not> P ([a..<b] ! j))"
  proof (intro exI [of _ "?m - a"] conjI allI impI)
    from m mb show "?m - a < length [a..<b]" by simp
    from m mb show "P ([a..<b] ! (?m - a))" by simp
    from m mb show "?m = [a..<b] ! (?m - a)" by simp
    fix j assume j: "j < ?m - a"
    with mb have "[a..<b] ! j = a + j" by simp
    moreover from j have "\<not> P (a + j)" by (intro before) simp_all
    ultimately show "\<not> P ([a..<b] ! j)" by simp
  qed
  then show ?thesis by (simp only: find_Some_iff)
qed

lemma best_fit_result:
  "best_fit fits qr =
     (if \<exists>v. version qr \<le> v \<and> v \<le> 40 \<and> fits (error_correction qr) v (data_list qr)
      then Inr (qr\<lparr>version :=
                    (LEAST v. version qr \<le> v \<and> fits (error_correction qr) v (data_list qr))\<rparr>)
      else Inl (PyError ''DataOverflowError''))"
proof (cases "\<exists>v. version qr \<le> v \<and> v \<le> 40 \<and> fits (error_correction qr) v (data_list qr)")
  case True
  then obtain v where "version qr \<le> v" and "v < 41"
    and "fits (error_correction qr) v (data_list qr)"
    by auto
  then have "find (\<lambda>v. fits (error_correction qr) v (data_list qr)) [version qr..<41] =
      Some (LEAST v. version qr \<le> v \<and> fits (error_correction qr) v (data_list qr))"
    by (rule find_upt_least)
  with True show ?thesis by (simp add: best_fit_def)
next
  case False
  then have "\<not> (\<exists>v. version qr \<le> v \<and> v < 41 \<and> fits (error_correction qr) v (data_list qr))"
    by auto
  then have "find (\<lambda>v. fits (error_correction qr) v (data_list qr)) [version qr..<41] = None"
    by (rule find_upt_none)
  with False show ?thesis by (simp add: best_fit_def)
qed

text \<open>
  C9. Given a QR library whose \<open>make(fit=True)\<close> has the fit semantics, the encoder
  builds, for a payload that some version from 1 to 40 holds at level L, the symbol of
  the smallest such version, at error-correction level L, with box size 10 and a border
  of 4 modules, holding the whole payload, and returns its rendering by the path-based
  SVG factory; for a payload that no version holds it raises the library's
  \<open>DataOverflowError\<close>.
\<close>

theorem encoder_builds_smallest_symbol:
  assumes "fit_semantics L fits"
  shows "generate_qr_code_svg L content =
           (if \<exists>v. 1 \<le> v \<and> v \<le> 40 \<and> fits ERROR_CORRECT_L v [content]
            then qr_image L SvgPathImage
                   \<lparr>version = (LEAST v. 1 \<le> v \<and> fits ERROR_CORRECT_L v [content]),
                    error_correction = ERROR_CORRECT_L, box_size = 10, border = 4,
                    data_list = [content]\<rparr>
            else Inl (PyError ''DataOverflowError''))"
proof -
  let ?qr = "\<lparr>version = 1, error_correction = ERROR_CORRECT_L, box_size = 10, border = 4,
              data_list = [content]\<rparr>"
  from assms have make: "qr_make L True ?qr = best_fit fits ?qr"
    by (simp add: fit_semantics_def)
  have gen: "generate_qr_code_svg L content =
      (case qr_make L True ?qr of Inl e \<Rightarrow> Inl e | Inr qr \<Rightarrow> qr_image L SvgPathImage qr)"
    by (simp add: generate_qr_code_svg_def add_data_def Let_def split: sum.splits)
  show ?thesis
    unfolding gen make best_fit_result by auto
qed

lemma demo_fit_semantics: "fit_semantics demo_libs demo_fits"
  by (simp add: fit_semantics_def demo_libs_fields)

theorem encoder_builds_smallest_symbol_witness:
  "fit_semantics demo_libs demo_fits
   \<and> generate_qr_code_svg demo_libs ''hello'' = Inr [1, 10, 4]
   \<and> generate_qr_code_svg demo_libs (replicate 681 (CHR ''a'')) = Inl (PyError ''DataOverflowError'')"
proof -
  have fits1: "demo_fits ERROR_CORRECT_L 1 [''hello'']"
    by (simp add: demo_fits_def)
  then have ex: "\<exists>v. 1 \<le> v \<and> v \<le> 40 \<and> demo_fits ERROR_CORRECT_L v [''hello'']"
    by (intro exI [of _ 1]) simp
  from fits1 have least: "(LEAST v. 1 \<le> v \<and> demo_fits ERROR_CORRECT_L v [''hello'']) = 1"
    by (intro Least_equality) simp_all
  have none: "\<not> (\<exists>v. 1 \<le> v \<and> v \<le> 40
      \<and> demo_fits ERROR_CORRECT_L v [replicate 681 (CHR ''a'')])"
    by (simp add: demo_fits_def)
  from encoder_builds_smallest_symbol [OF demo_fit_semantics, of "''hello''"] ex least
  have "generate_qr_code_svg demo_libs ''hello'' = Inr [1, 10, 4]"
    by (simp add: demo_libs_fields)
  moreover
  from encoder_builds_smallest_symbol [OF demo_fit_semantics, of "replicate 681 (CHR ''a'')"] none
  have "generate_qr_code_svg demo_libs (replicate 681 (CHR ''a''))
      = Inl (PyError ''DataOverflowError'')"
    by (simp only: if_not_P if_False)
  ultimately show ?thesis using demo_fit_semantics by simp
qed

end
